theory Spec2Isabelle
  imports Main "HOL-Library.Word"
begin

section \<open>Data of \<^verbatim>\<open>scripts/reader.py\<close>\<close>

text \<open>
  A Python \<^verbatim>\<open>bytes\<close> value is a list of 8-bit words. An APDU is built by the script as a
  Python list of integers (\<^verbatim>\<open>[CLA, INS, 0x00, 0x00, len(key)] + list(key)\<close>), so it is an
  \<open>int list\<close>: its fifth element is \<^verbatim>\<open>len(...)\<close>, an unbounded integer.
\<close>

type_synonym byte = "8 word"
type_synonym bytes = "byte list"
type_synonym apdu = "int list"

text \<open>The exceptions that the script raises itself or that its built-in operations raise.\<close>

datatype error =
    NoReadersFound          \<comment> \<open>\<^verbatim>\<open>Exception("No smartcard readers found")\<close>\<close>
  | SelectFailed int int    \<comment> \<open>\<^verbatim>\<open>Exception(f"Failed to select applet: SW1SW2 = ...")\<close>\<close>
  | BadCiphertextLength     \<comment> \<open>\<^verbatim>\<open>Exception("Ciphertext length must be multiple of 16 bytes")\<close>\<close>
  | IndexError
  | ValueError
  | ZeroDivisionError
  | EOFError
  | UnicodeEncodeError

definition CLA :: int where "CLA = 0x80"
definition INS_SET_KEY :: int where "INS_SET_KEY = 0x10"
definition INS_SET_IV :: int where "INS_SET_IV = 0x11"
definition INS_ENCRYPT :: int where "INS_ENCRYPT = 0x20"
definition INS_DECRYPT :: int where "INS_DECRYPT = 0x30"

definition APPLET_AID :: "int list" where
  "APPLET_AID = [0xAE, 0x25, 0x6C, 0xBC, 0x00, 0x01]"

section \<open>Python built-ins used by the padding functions\<close>

text \<open>
  \<^verbatim>\<open>bytes(xs)\<close> for a list of integers: \<^verbatim>\<open>ValueError\<close> unless every element is in
  \<^verbatim>\<open>range(0, 256)\<close>.
\<close>

definition py_bytes :: "int list \<Rightarrow> error + bytes" where
  "py_bytes xs =
     (if list_all (\<lambda>x. 0 \<le> x \<and> x < 256) xs then Inr (map word_of_int xs) else Inl ValueError)"

text \<open>\<^verbatim>\<open>list(b)\<close> for a bytes value: its elements as integers.\<close>

definition py_list :: "bytes \<Rightarrow> int list" where
  "py_list b = map uint b"

text \<open>\<^verbatim>\<open>[x] * n\<close>: the empty list when \<^verbatim>\<open>n\<close> is zero or negative.\<close>

definition py_repeat :: "'a \<Rightarrow> int \<Rightarrow> 'a list" where
  "py_repeat x n = replicate (nat n) x"

text \<open>
  \<^verbatim>\<open>xs[i]\<close>: a negative index counts from the end; \<^verbatim>\<open>IndexError\<close> outside the list.
\<close>

definition py_getitem :: "'a list \<Rightarrow> int \<Rightarrow> error + 'a" where
  "py_getitem xs i =
     (let n = int (length xs);
          j = (if i < 0 then i + n else i)
      in if j < 0 \<or> n \<le> j then Inl IndexError else Inr (xs ! nat j))"

text \<open>
  \<^verbatim>\<open>xs[:stop]\<close>: a negative \<^verbatim>\<open>stop\<close> counts from the end, and the bound is clamped into
  \<^verbatim>\<open>0..len(xs)\<close>.
\<close>

definition py_slice_to :: "'a list \<Rightarrow> int \<Rightarrow> 'a list" where
  "py_slice_to xs stop =
     (let n = int (length xs);
          s = (if stop < 0 then max 0 (n + stop) else min stop n)
      in take (nat s) xs)"

section \<open>PKCS#7 padding\<close>

text \<open>
  \<^verbatim>\<open>
  def pkcs7_pad(data, block_size=16):
      pad_len = block_size - (len(data) % block_size)
      return data + bytes([pad_len] * pad_len)
  \<close>
  \<^verbatim>\<open>%\<close> raises on a zero divisor and takes the sign of the divisor otherwise, as \<open>mod\<close> on
  \<open>int\<close> does.
\<close>

definition pkcs7_pad :: "bytes \<Rightarrow> int \<Rightarrow> error + bytes" where
  "pkcs7_pad data block_size =
     (if block_size = 0 then Inl ZeroDivisionError
      else
        let pad_len = block_size - (int (length data) mod block_size)
        in case py_bytes (py_repeat pad_len pad_len) of
             Inl e \<Rightarrow> Inl e
           | Inr padding \<Rightarrow> Inr (data @ padding))"

text \<open>The call \<^verbatim>\<open>pkcs7_pad(data)\<close>, with the default \<^verbatim>\<open>block_size=16\<close>.\<close>

definition pkcs7_pad_default :: "bytes \<Rightarrow> error + bytes" where
  "pkcs7_pad_default data = pkcs7_pad data 16"

text \<open>
  \<^verbatim>\<open>
  def pkcs7_unpad(data):
      pad_len = data[-1]
      if pad_len < 1 or pad_len > 16:
          return data
      return data[:-pad_len]
  \<close>
  \<^verbatim>\<open>data[-1]\<close> raises \<^verbatim>\<open>IndexError\<close> on an empty value.
\<close>

definition pkcs7_unpad :: "bytes \<Rightarrow> error + bytes" where
  "pkcs7_unpad data =
     (case py_getitem data (- 1) of
        Inl e \<Rightarrow> Inl e
      | Inr b \<Rightarrow>
          let pad_len = uint b
          in if pad_len < 1 \<or> pad_len > 16 then Inr data
             else Inr (py_slice_to data (- pad_len)))"

section \<open>The environment of the script\<close>

text \<open>
  The script talks to three things it does not define: the reader library
  (\<^verbatim>\<open>readers()\<close>, \<^verbatim>\<open>createConnection()\<close>, \<^verbatim>\<open>connect()\<close>, \<^verbatim>\<open>connection.transmit\<close>), the console
  (\<^verbatim>\<open>input\<close>, \<^verbatim>\<open>print\<close>) and the string methods \<^verbatim>\<open>strip\<close>, \<^verbatim>\<open>lower\<close>, \<^verbatim>\<open>bytes.fromhex\<close> and
  \<^verbatim>\<open>encode\<close>. They are parameters of the model, so that every theorem holds for each card
  and each behaviour of these methods.

  A reader is what the script uses of it: the text printed for it and the connection
  that \<^verbatim>\<open>createConnection()\<close> followed by \<^verbatim>\<open>connect()\<close> opens. The card is a transition
  function on the state \<open>'c\<close> of the connection: \<^verbatim>\<open>connection.transmit(apdu)\<close> returns
  \<^verbatim>\<open>(response, sw1, sw2)\<close>. The calls of the reader library are taken to return; the
  conversions \<^verbatim>\<open>bytes.fromhex\<close> and \<^verbatim>\<open>encode\<close> may raise, which is the value \<open>None\<close> here.
\<close>

record 'c reader =
  reader_name :: string
  createConnection :: 'c

record 'c env =
  readers :: "'c reader list"
  connection_transmit :: "'c \<Rightarrow> apdu \<Rightarrow> (int list \<times> int \<times> int) \<times> 'c"
  str_strip :: "string \<Rightarrow> string"
  str_lower :: "string \<Rightarrow> string"
  bytes_fromhex :: "string \<Rightarrow> bytes option"
  str_encode :: "string \<Rightarrow> bytes option"

text \<open>
  What a run does, in order: the APDUs handed to \<^verbatim>\<open>connection.transmit\<close>, the prompts of
  \<^verbatim>\<open>input\<close> and the lines printed (as the values they are formatted from).
\<close>

datatype event =
    Print_Using_Reader string            \<comment> \<open>\<^verbatim>\<open>print(f"Using reader: {reader}")\<close>\<close>
  | Transmit apdu                         \<comment> \<open>\<^verbatim>\<open>connection.transmit(apdu)\<close>\<close>
  | Print_APDU apdu int int "int list"    \<comment> \<open>the line printed by \<^verbatim>\<open>transmit\<close>: APDU, SW1, SW2, response\<close>
  | Prompt string                         \<comment> \<open>\<^verbatim>\<open>input(prompt)\<close>\<close>
  | Print_Ciphertext "int list"
  | Print_Plaintext bytes
  | Print_Invalid_Action

record 'c world =
  connection :: 'c
  stdin :: "string list"
  trace :: "event list"

text \<open>
  A statement of the script runs in a world and either returns a value or raises; the
  world it leaves keeps what was transmitted and printed before the exception.
\<close>

type_synonym ('c, 'a) io = "'c world \<Rightarrow> (error + 'a) \<times> 'c world"

definition io_bind :: "('c, 'a) io \<Rightarrow> ('a \<Rightarrow> ('c, 'b) io) \<Rightarrow> ('c, 'b) io" where
  "io_bind m f w = (case m w of (Inl e, w') \<Rightarrow> (Inl e, w') | (Inr a, w') \<Rightarrow> f a w')"

definition io_raise :: "error \<Rightarrow> ('c, 'a) io" where
  "io_raise e w = (Inl e, w)"

definition io_lift :: "error + 'a \<Rightarrow> ('c, 'a) io" where
  "io_lift r w = (r, w)"

definition print :: "event \<Rightarrow> ('c, unit) io" where
  "print e w = (Inr (), w\<lparr>trace := trace w @ [e]\<rparr>)"

text \<open>\<^verbatim>\<open>bytes.fromhex(s)\<close> raises \<^verbatim>\<open>ValueError\<close> on malformed input.\<close>

definition fromhex :: "'c env \<Rightarrow> string \<Rightarrow> ('c, bytes) io" where
  "fromhex env s = io_lift (case bytes_fromhex env s of None \<Rightarrow> Inl ValueError | Some b \<Rightarrow> Inr b)"

text \<open>\<^verbatim>\<open>s.encode()\<close> raises \<^verbatim>\<open>UnicodeEncodeError\<close> on text that UTF-8 cannot encode.\<close>

definition encode :: "'c env \<Rightarrow> string \<Rightarrow> ('c, bytes) io" where
  "encode env s =
     io_lift (case str_encode env s of None \<Rightarrow> Inl UnicodeEncodeError | Some b \<Rightarrow> Inr b)"

text \<open>\<^verbatim>\<open>input(prompt)\<close>: prints the prompt, then reads a line; \<^verbatim>\<open>EOFError\<close> at end of input.\<close>

definition input :: "string \<Rightarrow> ('c, string) io" where
  "input prompt w =
     (case stdin w of
        [] \<Rightarrow> (Inl EOFError, w\<lparr>trace := trace w @ [Prompt prompt]\<rparr>)
      | l # ls \<Rightarrow> (Inr l, w\<lparr>stdin := ls, trace := trace w @ [Prompt prompt]\<rparr>))"

text \<open>
  \<^verbatim>\<open>
  def transmit(apdu, connection):
      response, sw1, sw2 = connection.transmit(apdu)
      print(f"APDU: {toHexString(apdu)} -> SW1SW2: {sw1:02X}{sw2:02X}, Response: {toHexString(response)}")
      return response, sw1, sw2
  \<close>
\<close>

definition transmit :: "'c env \<Rightarrow> apdu \<Rightarrow> ('c, int list \<times> int \<times> int) io" where
  "transmit env apdu w =
     (case connection_transmit env (connection w) apdu of
        ((response, sw1, sw2), c') \<Rightarrow>
          (Inr (response, sw1, sw2),
           w\<lparr>connection := c',
             trace := trace w @ [Transmit apdu, Print_APDU apdu sw1 sw2 response]\<rparr>))"

section \<open>The script\<close>

text \<open>Line 39: \<^verbatim>\<open>select_apdu = [0x00, 0xA4, 0x04, 0x00, len(APPLET_AID)] + APPLET_AID\<close>.\<close>

definition select_apdu :: apdu where
  "select_apdu = [0x00, 0xA4, 0x04, 0x00, int (length APPLET_AID)] @ APPLET_AID"

text \<open>Lines 61 to 66, the branch \<^verbatim>\<open>action == "encrypt"\<close>.\<close>

definition encrypt_branch :: "'c env \<Rightarrow> ('c, unit) io" where
  "encrypt_branch env =
     io_bind (input ''Enter plaintext: '') (\<lambda>line.
     io_bind (encode env line) (\<lambda>plaintext.
     io_bind (io_lift (pkcs7_pad_default plaintext)) (\<lambda>padded_plaintext.
     io_bind (transmit env
        ([CLA, INS_ENCRYPT, 0x00, 0x00, int (length padded_plaintext)] @ py_list padded_plaintext))
       (\<lambda>(ciphertext, sw1, sw2).
     print (Print_Ciphertext ciphertext)))))"

text \<open>Lines 67 to 78, the branch \<^verbatim>\<open>action == "decrypt"\<close>; \<open>iv\<close> is the global set at line 48.\<close>

definition decrypt_branch :: "'c env \<Rightarrow> bytes \<Rightarrow> ('c, unit) io" where
  "decrypt_branch env iv =
     io_bind (input ''Enter ciphertext (hex): '') (\<lambda>line.
     io_bind (fromhex env (str_strip env line)) (\<lambda>ciphertext.
     if int (length ciphertext) mod 16 \<noteq> 0 then io_raise BadCiphertextLength
     else
     io_bind (transmit env ([CLA, INS_SET_IV, 0x00, 0x00, int (length iv)] @ py_list iv)) (\<lambda>_.
     io_bind (transmit env
        ([CLA, INS_DECRYPT, 0x00, 0x00, int (length ciphertext)] @ py_list ciphertext))
       (\<lambda>(plaintext, sw1, sw2).
     io_bind (io_lift (py_bytes plaintext)) (\<lambda>plaintext_bytes.
     io_bind (io_lift (pkcs7_unpad plaintext_bytes)) (\<lambda>unpadded.
     print (Print_Plaintext unpadded)))))))"

text \<open>Lines 38 to 80: everything after the connection is open.\<close>

definition session :: "'c env \<Rightarrow> ('c, unit) io" where
  "session env =
     io_bind (transmit env select_apdu) (\<lambda>(resp, sw1, sw2).
     if (sw1, sw2) \<noteq> (0x90, 0x00) then io_raise (SelectFailed sw1 sw2)
     else
     io_bind (input ''Enter 32-byte AES key (hex, 64 chars): '') (\<lambda>key_line.
     io_bind (fromhex env (str_strip env key_line)) (\<lambda>key.
     io_bind (input ''Enter 16-byte IV (hex, 32 chars): '') (\<lambda>iv_line.
     io_bind (fromhex env (str_strip env iv_line)) (\<lambda>iv.
     io_bind (transmit env ([CLA, INS_SET_KEY, 0x00, 0x00, int (length key)] @ py_list key)) (\<lambda>_.
     io_bind (transmit env ([CLA, INS_SET_IV, 0x00, 0x00, int (length iv)] @ py_list iv)) (\<lambda>_.
     io_bind (input ''Choose action (encrypt/decrypt): '') (\<lambda>action_line.
     let action = str_lower env (str_strip env action_line)
     in if action = ''encrypt'' then encrypt_branch env
        else if action = ''decrypt'' then decrypt_branch env iv
        else print Print_Invalid_Action))))))))"

text \<open>
  Lines 28 to 36, then the session: the whole script, run with the lines \<open>lines\<close> on
  its standard input. It returns how the run ended and its trace.
  \<^verbatim>\<open>
  all_readers = readers()
  if not all_readers:
      raise Exception("No smartcard readers found")
  reader = all_readers[1]
  print(f"Using reader: {reader}")
  connection = reader.createConnection()
  connection.connect()
  \<close>
\<close>

definition script :: "'c env \<Rightarrow> string list \<Rightarrow> (error + unit) \<times> event list" where
  "script env lines =
     (let all_readers = readers env
      in if all_readers = [] then (Inl NoReadersFound, [])
         else
           case py_getitem all_readers 1 of
             Inl e \<Rightarrow> (Inl e, [])
           | Inr reader \<Rightarrow>
               (case session env
                       \<lparr>connection = createConnection reader, stdin = lines,
                        trace = [Print_Using_Reader (reader_name reader)]\<rparr> of
                  (r, w) \<Rightarrow> (r, trace w)))"

section \<open>Observations on a run\<close>

text \<open>The APDUs transmitted in a trace, in order.\<close>

fun transmitted :: "event list \<Rightarrow> apdu list" where
  "transmitted [] = []"
| "transmitted (Transmit a # es) = a # transmitted es"
| "transmitted (e # es) = transmitted es"

text \<open>
  The frame of the specification, section 4.1: \<^verbatim>\<open>[CLA, INS, P1, P2, LEN] + payload\<close>, for a
  payload given as integers.
\<close>

definition spec_frame :: "int \<Rightarrow> int \<Rightarrow> int \<Rightarrow> int \<Rightarrow> int list \<Rightarrow> apdu" where
  "spec_frame cla ins p1 p2 payload = [cla, ins, p1, p2, int (length payload)] @ payload"

text \<open>
  An APDU has that form when it has the five header elements and the element of index 4
  is the number of elements that follow.
\<close>

definition well_framed :: "apdu \<Rightarrow> bool" where
  "well_framed a \<longleftrightarrow> 5 \<le> length a \<and> a ! 4 = int (length (drop 5 a))"

text \<open>
  The shapes of the APDU sequences of a run: nothing, the SELECT alone, SELECT with
  SET_KEY and SET_IV, and these followed by ENCRYPT or by SET_IV and DECRYPT.
\<close>

fun session_shape :: "apdu list \<Rightarrow> bool" where
  "session_shape [] = True"
| "session_shape [s] = (s = select_apdu)"
| "session_shape [s, k, i] =
     (s = select_apdu \<and> well_framed k \<and> take 4 k = [CLA, INS_SET_KEY, 0, 0] \<and>
      well_framed i \<and> take 4 i = [CLA, INS_SET_IV, 0, 0])"
| "session_shape [s, k, i, e] =
     (session_shape [s, k, i] \<and> well_framed e \<and> take 4 e = [CLA, INS_ENCRYPT, 0, 0])"
| "session_shape [s, k, i, i', d] =
     (session_shape [s, k, i] \<and> i' = i \<and> well_framed d \<and> take 4 d = [CLA, INS_DECRYPT, 0, 0])"
| "session_shape _ = False"

text \<open>
  A card that answers as \<open>env\<close>'s does, except that the status word of its answers to the
  SET_KEY and SET_IV commands is the one \<open>f\<close> gives.
\<close>

definition is_set_key_or_iv :: "apdu \<Rightarrow> bool" where
  "is_set_key_or_iv a \<longleftrightarrow> take 2 a = [CLA, INS_SET_KEY] \<or> take 2 a = [CLA, INS_SET_IV]"

definition override_status :: "('c \<Rightarrow> apdu \<Rightarrow> int \<times> int) \<Rightarrow> 'c env \<Rightarrow> 'c env" where
  "override_status f env =
     env\<lparr>connection_transmit := (\<lambda>c a.
       case connection_transmit env c a of
         ((response, sw1, sw2), c') \<Rightarrow>
           if is_set_key_or_iv a then ((response, fst (f c a), snd (f c a)), c')
           else ((response, sw1, sw2), c'))\<rparr>"

text \<open>A trace without the status words printed for SET_KEY and SET_IV.\<close>

fun redact :: "event \<Rightarrow> event" where
  "redact (Print_APDU a sw1 sw2 response) =
     (if is_set_key_or_iv a then Print_APDU a 0 0 response else Print_APDU a sw1 sw2 response)"
| "redact e = e"

section \<open>A sample environment\<close>

text \<open>
  A concrete environment on which the theorems below are evaluated: two readers, a card
  that answers SELECT with a given status word and every other command with status
  \<open>6D00\<close> and the payload echoed, and ASCII versions of the string methods
  (\<^verbatim>\<open>strip\<close> of spaces, \<^verbatim>\<open>lower\<close>, \<^verbatim>\<open>bytes.fromhex\<close> on pairs of hex digits, \<^verbatim>\<open>encode\<close>).
\<close>

definition hex_val :: "char \<Rightarrow> nat option" where
  "hex_val c =
     (let n = (of_char c :: nat)
      in if 48 \<le> n \<and> n \<le> 57 then Some (n - 48)
         else if 97 \<le> n \<and> n \<le> 102 then Some (n - 87)
         else if 65 \<le> n \<and> n \<le> 70 then Some (n - 55)
         else None)"

fun hex_pairs :: "string \<Rightarrow> bytes option" where
  "hex_pairs [] = Some []"
| "hex_pairs [c] = None"
| "hex_pairs (a # b # cs) =
     (case (hex_val a, hex_val b, hex_pairs cs) of
        (Some h, Some l, Some bs) \<Rightarrow> Some (word_of_nat (16 * h + l) # bs)
      | _ \<Rightarrow> None)"

definition strip_spaces :: "string \<Rightarrow> string" where
  "strip_spaces s =
     rev (dropWhile (\<lambda>c. c = CHR '' '') (rev (dropWhile (\<lambda>c. c = CHR '' '') s)))"

definition ascii_lower :: "string \<Rightarrow> string" where
  "ascii_lower s =
     map (\<lambda>c. case map_of (zip ''ABCDEFGHIJKLMNOPQRSTUVWXYZ'' ''abcdefghijklmnopqrstuvwxyz'') c of
                None \<Rightarrow> c
              | Some l \<Rightarrow> l) s"

definition ascii_encode :: "string \<Rightarrow> bytes option" where
  "ascii_encode s = Some (map (\<lambda>c. word_of_nat (of_char c)) s)"

definition sample_card :: "int \<times> int \<Rightarrow> nat \<Rightarrow> apdu \<Rightarrow> (int list \<times> int \<times> int) \<times> nat" where
  "sample_card select_sw n a =
     (if a = select_apdu then (([], fst select_sw, snd select_sw), Suc n)
      else ((drop 5 a, 0x6D, 0x00), Suc n))"

definition sample_env :: "int \<times> int \<Rightarrow> nat env" where
  "sample_env select_sw =
     \<lparr>readers = [\<lparr>reader_name = ''contact reader'', createConnection = 100\<rparr>,
                 \<lparr>reader_name = ''contactless reader'', createConnection = 0\<rparr>],
      connection_transmit = sample_card select_sw,
      str_strip = strip_spaces, str_lower = ascii_lower,
      bytes_fromhex = hex_pairs, str_encode = ascii_encode\<rparr>"

definition sample_key_line :: string where
  "sample_key_line = '' 000102030405060708090a0b0c0d0e0f101112131415161718191A1B1C1D1E1F ''"

definition sample_key :: bytes where
  "sample_key = [0x00, 0x01, 0x02, 0x03, 0x04, 0x05, 0x06, 0x07, 0x08, 0x09, 0x0A, 0x0B, 0x0C,
     0x0D, 0x0E, 0x0F, 0x10, 0x11, 0x12, 0x13, 0x14, 0x15, 0x16, 0x17, 0x18, 0x19, 0x1A, 0x1B,
     0x1C, 0x1D, 0x1E, 0x1F]"

definition sample_iv_line :: string where
  "sample_iv_line = ''a0a1a2a3a4a5a6a7a8a9aaabacadaeaf''"

definition sample_iv :: bytes where
  "sample_iv = [0xA0, 0xA1, 0xA2, 0xA3, 0xA4, 0xA5, 0xA6, 0xA7, 0xA8, 0xA9, 0xAA, 0xAB, 0xAC,
     0xAD, 0xAE, 0xAF]"

section \<open>Facts about the built-ins\<close>

lemma py_bytes_repeat:
  "0 \<le> n \<Longrightarrow> n < 256 \<Longrightarrow> py_bytes (py_repeat n n) = Inr (replicate (nat n) (word_of_int n))"
  by (simp add: py_bytes_def py_repeat_def list_all_iff)

lemma py_getitem_last: "xs \<noteq> [] \<Longrightarrow> py_getitem xs (- 1) = Inr (last xs)"
  by (cases xs rule: rev_cases) (simp_all add: py_getitem_def Let_def nat_diff_distrib' nth_append)

lemma py_getitem_empty: "py_getitem [] i = Inl IndexError"
  by (simp add: py_getitem_def Let_def)

lemma py_slice_to_neg: "0 < k \<Longrightarrow> py_slice_to xs (- k) = take (length xs - nat k) xs"
  by (auto simp add: py_slice_to_def Let_def max_def nat_diff_distrib')

lemma uint_small_byte: "n \<le> 16 \<Longrightarrow> uint (word_of_nat n :: byte) = int n"
  by (simp add: unsigned_of_nat take_bit_nat_eq_self)

section \<open>Padding and unpadding\<close>

lemma pad_len_16: "16 - int (length data) mod 16 = int (16 - length data mod 16)"
proof -
  have "int (length data) mod 16 = int (length data mod 16)"
    by (simp add: zmod_int)
  moreover have "length data mod 16 < 16" by simp
  ultimately show ?thesis by linarith
qed

lemma pkcs7_pad_16:
  "pkcs7_pad data 16 =
     Inr (data @ replicate (16 - length data mod 16) (word_of_nat (16 - length data mod 16)))"
proof -
  let ?n = "16 - length data mod 16"
  have "py_bytes (py_repeat (int ?n) (int ?n)) =
          Inr (replicate (nat (int ?n)) (word_of_int (int ?n)))"
    by (intro py_bytes_repeat) simp_all
  then show ?thesis
    unfolding pkcs7_pad_def Let_def pad_len_16 by simp
qed

lemma pkcs7_unpad_nonempty:
  "data \<noteq> [] \<Longrightarrow>
   pkcs7_unpad data =
     Inr (if 1 \<le> uint (last data) \<and> uint (last data) \<le> 16
          then take (length data - nat (uint (last data))) data else data)"
  by (auto simp add: pkcs7_unpad_def py_getitem_last Let_def py_slice_to_neg)

lemma pkcs7_unpad_padded:
  assumes "1 \<le> n" "n \<le> 16"
  shows "pkcs7_unpad (d @ replicate n (word_of_nat n)) = Inr d"
proof -
  let ?p = "d @ replicate n (word_of_nat n :: byte)"
  from assms have l: "last ?p = word_of_nat n" by (cases n) simp_all
  from assms have ne: "?p \<noteq> []" by auto
  show ?thesis
    using assms by (simp add: pkcs7_unpad_nonempty [OF ne] l uint_small_byte)
qed

text \<open>
  C1. For every byte sequence \<open>d\<close>, padding to blocks of 16 succeeds and appends \<open>n\<close> bytes
  of value \<open>n\<close> with \<open>1 \<le> n \<le> 16\<close>; unpadding the result removes exactly these \<open>n\<close>
  trailing bytes and returns \<open>d\<close>.
\<close>

theorem pkcs7_unpad_pad_roundtrip:
  fixes d :: bytes
  shows "\<exists>n padded.
           pkcs7_pad d 16 = Inr padded \<and> pkcs7_pad_default d = Inr padded \<and>
           1 \<le> n \<and> n \<le> 16 \<and>
           padded = d @ replicate n (word_of_nat n) \<and>
           py_list (replicate n (word_of_nat n)) = replicate n (int n) \<and>
           pkcs7_unpad padded = Inr (take (length padded - n) padded) \<and>
           pkcs7_unpad padded = Inr d"
proof -
  let ?n = "16 - length d mod 16"
  let ?p = "d @ replicate ?n (word_of_nat ?n :: byte)"
  have r: "1 \<le> ?n" "?n \<le> 16" by simp_all
  have "pkcs7_unpad ?p = Inr d" by (rule pkcs7_unpad_padded [OF r])
  moreover have "take (length ?p - ?n) ?p = d" by simp
  moreover have "py_list (replicate ?n (word_of_nat ?n)) = replicate ?n (int ?n)"
    using uint_small_byte [OF r(2)] by (simp add: py_list_def)
  ultimately show ?thesis
    using pkcs7_pad_16 [of d] r
    by (intro exI [of _ ?n] exI [of _ ?p]) (simp add: pkcs7_pad_default_def)
qed

text \<open>
  The scenario of the specification: \<^verbatim>\<open>hello\<close> gets eleven bytes \<open>0x0B\<close>, 16 bytes in all,
  and unpadding gives \<^verbatim>\<open>hello\<close> back.
\<close>

theorem pkcs7_unpad_pad_roundtrip_witness:
  "pkcs7_pad [0x68, 0x65, 0x6C, 0x6C, 0x6F] 16 = Inr ([0x68, 0x65, 0x6C, 0x6C, 0x6F] @ replicate 11 0x0B) \<and>
   pkcs7_unpad ([0x68, 0x65, 0x6C, 0x6C, 0x6F] @ replicate 11 0x0B) = Inr [0x68, 0x65, 0x6C, 0x6C, 0x6F]"
  using pkcs7_unpad_pad_roundtrip [of "[0x68, 0x65, 0x6C, 0x6C, 0x6F]"]
  by (auto simp add: pkcs7_pad_16)

text \<open>
  C2. For every byte sequence \<open>data\<close>, \<^verbatim>\<open>pkcs7_pad(data, 16)\<close> appends exactly
  \<open>n = 16 - (len(data) mod 16)\<close> bytes, each of value \<open>n\<close>; \<open>n\<close> is between 1 and 16, it is 16
  (a whole extra block) when the length is already a multiple of 16, and the length of the
  result is a multiple of 16.
\<close>

theorem pkcs7_pad_appends_count:
  fixes data :: bytes
  shows "let n = 16 - length data mod 16;
             padding = replicate n (word_of_nat n :: byte)
         in pkcs7_pad data 16 = Inr (data @ padding) \<and>
            length padding = n \<and> py_list padding = replicate n (int n) \<and>
            1 \<le> n \<and> n \<le> 16 \<and>
            (length data mod 16 = 0 \<longrightarrow> n = 16 \<and> length (data @ padding) = length data + 16) \<and>
            length (data @ padding) mod 16 = 0"
proof -
  let ?n = "16 - length data mod 16"
  have r: "?n \<le> 16" by simp
  have v: "py_list (replicate ?n (word_of_nat ?n)) = replicate ?n (int ?n)"
    using uint_small_byte [OF r] by (simp add: py_list_def)
  have m: "(length data + ?n) mod 16 = 0"
    by presburger
  show ?thesis
    unfolding Let_def using pkcs7_pad_16 [of data] v m by simp
qed

text \<open>
  The scenario of the specification: the 16 bytes \<^verbatim>\<open>0123456789abcdef\<close> get a whole block of
  sixteen bytes \<open>0x10\<close>, 32 bytes in all.
\<close>

theorem pkcs7_pad_appends_count_witness:
  "pkcs7_pad [0x30, 0x31, 0x32, 0x33, 0x34, 0x35, 0x36, 0x37, 0x38, 0x39,
              0x61, 0x62, 0x63, 0x64, 0x65, 0x66] 16 =
     Inr ([0x30, 0x31, 0x32, 0x33, 0x34, 0x35, 0x36, 0x37, 0x38, 0x39,
           0x61, 0x62, 0x63, 0x64, 0x65, 0x66] @ replicate 16 0x10) \<and>
   length ([0x30, 0x31, 0x32, 0x33, 0x34, 0x35, 0x36, 0x37, 0x38, 0x39,
            0x61, 0x62, 0x63, 0x64, 0x65, 0x66 :: byte] @ replicate 16 0x10) = 32"
  using pkcs7_pad_appends_count
    [of "[0x30, 0x31, 0x32, 0x33, 0x34, 0x35, 0x36, 0x37, 0x38, 0x39,
          0x61, 0x62, 0x63, 0x64, 0x65, 0x66]"]
  by (simp add: Let_def)

text \<open>
  C3, as the claim states it, fails on the empty byte sequence: there is no last byte to
  read, and \<^verbatim>\<open>data[-1]\<close> raises \<^verbatim>\<open>IndexError\<close>.
\<close>

theorem pkcs7_unpad_empty_raises: "pkcs7_unpad [] = Inl IndexError"
  by (simp add: pkcs7_unpad_def py_getitem_empty)

text \<open>
  C3, amended. For every non-empty byte sequence \<open>data\<close> with last byte \<open>n\<close>:
  if \<open>1 \<le> n \<le> 16\<close>, \<^verbatim>\<open>pkcs7_unpad\<close> returns \<^verbatim>\<open>data[:-n]\<close>, that is \<open>data\<close> without its last
  \<open>n\<close> bytes (nothing is left when \<open>data\<close> has fewer than \<open>n\<close> bytes); otherwise, when \<open>n\<close> is
  0 or greater than 16, it returns \<open>data\<close> unchanged. The removed bytes are not compared
  with \<open>n\<close>: \<^verbatim>\<open>AA BB 02\<close>, whose last two bytes are not both \<open>02\<close>, is cut to \<^verbatim>\<open>AA\<close>.
\<close>

theorem pkcs7_unpad_lenient:
  fixes data :: bytes
  assumes "data \<noteq> []"
  shows "pkcs7_unpad data =
           Inr (if 1 \<le> uint (last data) \<and> uint (last data) \<le> 16
                then take (length data - nat (uint (last data))) data else data) \<and>
         pkcs7_unpad [0xAA, 0xBB, 0x02] = Inr [0xAA]"
proof -
  have "pkcs7_unpad [0xAA, 0xBB, 0x02] = Inr [0xAA]"
    by (simp add: pkcs7_unpad_nonempty)
  with assms show ?thesis
    by (simp only: pkcs7_unpad_nonempty simp_thms)
qed

theorem pkcs7_unpad_lenient_witness:
  "pkcs7_unpad [0x68, 0x69, 0x03, 0x03, 0x03] = Inr [0x68, 0x69] \<and>
   pkcs7_unpad [0x68, 0x69, 0x00] = Inr [0x68, 0x69, 0x00] \<and>
   pkcs7_unpad [0x68, 0x69, 0x11] = Inr [0x68, 0x69, 0x11] \<and>
   pkcs7_unpad [0x05] = Inr []"
  using pkcs7_unpad_lenient [of "[0x68, 0x69, 0x03, 0x03, 0x03]"]
    pkcs7_unpad_lenient [of "[0x68, 0x69, 0x00]"]
    pkcs7_unpad_lenient [of "[0x68, 0x69, 0x11]"]
    pkcs7_unpad_lenient [of "[0x05]"]
  by simp

section \<open>Running the script step by step\<close>

lemma transmitted_append [simp]: "transmitted (xs @ ys) = transmitted xs @ transmitted ys"
  by (induction xs rule: transmitted.induct) simp_all

lemma well_framed_py_list [simp]: "well_framed (c # i # p # q # int (length xs) # py_list xs)"
  by (simp add: well_framed_def py_list_def)

lemma bind_input:
  "io_bind (input p) f w =
     (case stdin w of
        [] \<Rightarrow> (Inl EOFError, w\<lparr>trace := trace w @ [Prompt p]\<rparr>)
      | l # ls \<Rightarrow> f l (w\<lparr>stdin := ls, trace := trace w @ [Prompt p]\<rparr>))"
  by (simp add: io_bind_def input_def split: list.split)

lemma bind_transmit:
  "io_bind (transmit env a) f w =
     (let r = connection_transmit env (connection w) a
      in f (fst r)
           (w\<lparr>connection := snd r,
              trace := trace w @
                [Transmit a, Print_APDU a (fst (snd (fst r))) (snd (snd (fst r))) (fst (fst r))]\<rparr>))"
  by (simp add: io_bind_def transmit_def Let_def split: prod.split)

lemma bind_lift:
  "io_bind (io_lift r) f w = (case r of Inl e \<Rightarrow> (Inl e, w) | Inr a \<Rightarrow> f a w)"
  by (simp add: io_bind_def io_lift_def split: sum.split)

lemma bind_fromhex:
  "io_bind (fromhex env s) f w =
     (case bytes_fromhex env s of None \<Rightarrow> (Inl ValueError, w) | Some b \<Rightarrow> f b w)"
  by (simp add: fromhex_def bind_lift split: option.split)

lemma bind_encode:
  "io_bind (encode env s) f w =
     (case str_encode env s of None \<Rightarrow> (Inl UnicodeEncodeError, w) | Some b \<Rightarrow> f b w)"
  by (simp add: encode_def bind_lift split: option.split)

lemmas run_simps = bind_input bind_transmit bind_lift bind_fromhex bind_encode
  io_raise_def print_def Let_def case_prod_beta

lemma encrypt_branch_transmitted:
  "transmitted (trace (snd (encrypt_branch env w))) = transmitted (trace w) \<or>
   (\<exists>p. transmitted (trace (snd (encrypt_branch env w))) =
      transmitted (trace w) @ [[CLA, INS_ENCRYPT, 0, 0, int (length p)] @ py_list p])"
  by (auto simp add: encrypt_branch_def run_simps
      split: sum.split list.split option.split)

lemma decrypt_branch_transmitted:
  "transmitted (trace (snd (decrypt_branch env iv w))) = transmitted (trace w) \<or>
   (\<exists>c. transmitted (trace (snd (decrypt_branch env iv w))) =
      transmitted (trace w) @ [[CLA, INS_SET_IV, 0, 0, int (length iv)] @ py_list iv,
        [CLA, INS_DECRYPT, 0, 0, int (length c)] @ py_list c])"
  by (auto simp add: decrypt_branch_def run_simps
      split: sum.split list.split option.split)


lemma encrypt_branch_shape:
  assumes "transmitted (trace w) = [s, k, i]" "session_shape [s, k, i]"
  shows "session_shape (transmitted (trace (snd (encrypt_branch env w))))"
  using encrypt_branch_transmitted [of env w] assms by auto

lemma decrypt_branch_shape:
  assumes "transmitted (trace w) = [s, k, [CLA, INS_SET_IV, 0, 0, int (length iv)] @ py_list iv]"
    "session_shape [s, k, [CLA, INS_SET_IV, 0, 0, int (length iv)] @ py_list iv]"
  shows "session_shape (transmitted (trace (snd (decrypt_branch env iv w))))"
  using decrypt_branch_transmitted [of env iv w] assms by auto

lemma session_transmitted_shape:
  assumes "transmitted (trace w) = []"
  shows "session_shape (transmitted (trace (snd (session env w))))"
  using assms
  by (auto simp add: session_def run_simps
      intro!: encrypt_branch_shape decrypt_branch_shape
      split: list.split option.split)

lemma script_transmitted_shape: "session_shape (transmitted (snd (script env lines)))"
  by (simp add: script_def Let_def session_transmitted_shape case_prod_beta
      split: sum.split)


lemma is_set_key_or_iv_simps [simp]:
  "is_set_key_or_iv (CLA # INS_SET_KEY # xs)"
  "is_set_key_or_iv (CLA # INS_SET_IV # xs)"
  "\<not> is_set_key_or_iv (CLA # INS_ENCRYPT # xs)"
  "\<not> is_set_key_or_iv (CLA # INS_DECRYPT # xs)"
  "\<not> is_set_key_or_iv select_apdu"
  by (simp_all add: is_set_key_or_iv_def select_apdu_def CLA_def INS_SET_KEY_def INS_SET_IV_def
      INS_ENCRYPT_def INS_DECRYPT_def)

lemma override_status_fields [simp]:
  "readers (override_status f env) = readers env"
  "str_strip (override_status f env) = str_strip env"
  "str_lower (override_status f env) = str_lower env"
  "bytes_fromhex (override_status f env) = bytes_fromhex env"
  "str_encode (override_status f env) = str_encode env"
  by (simp_all add: override_status_def)

lemma override_status_transmit:
  "connection_transmit (override_status f env) c a =
     (let r = connection_transmit env c a
      in if is_set_key_or_iv a then ((fst (fst r), fst (f c a), snd (f c a)), snd r) else r)"
  by (simp add: override_status_def Let_def case_prod_beta)

lemma session_override:
  "fst (session (override_status f env) w) = fst (session env w) \<and>
   map redact (trace (snd (session (override_status f env) w))) =
     map redact (trace (snd (session env w)))"
  by (simp add: session_def encrypt_branch_def decrypt_branch_def run_simps override_status_transmit
      split: list.split option.split sum.split)

section \<open>Start-up, SELECT and the branches\<close>

lemma py_getitem_second: "py_getitem (r0 # r1 # rs) 1 = Inr r1"
  by (simp add: py_getitem_def Let_def)

lemma py_getitem_single: "py_getitem [r] 1 = Inl IndexError"
  by (simp add: py_getitem_def Let_def)

lemma script_two_readers:
  assumes "readers env = r0 # r1 # rs"
  shows "script env lines =
    (fst (session env \<lparr>connection = createConnection r1, stdin = lines,
                        trace = [Print_Using_Reader (reader_name r1)]\<rparr>),
     trace (snd (session env \<lparr>connection = createConnection r1, stdin = lines,
                        trace = [Print_Using_Reader (reader_name r1)]\<rparr>)))"
  using assms by (simp add: script_def Let_def py_getitem_second case_prod_beta)

lemma length_py_list [simp]: "length (py_list b) = length b"
  by (simp add: py_list_def)

lemma spec_frame_Cons: "spec_frame c i p q xs = c # i # p # q # int (length xs) # xs"
  by (simp add: spec_frame_def)

text \<open>Errors of the built-in steps.\<close>

lemma py_bytes_Inl: "py_bytes xs = Inl e \<Longrightarrow> e = ValueError"
  by (simp add: py_bytes_def split: if_splits)

lemma pkcs7_unpad_Inl: "pkcs7_unpad d = Inl e \<Longrightarrow> e = IndexError"
  by (auto simp add: pkcs7_unpad_def py_getitem_def Let_def split: if_splits sum.splits)

lemma pkcs7_pad_default_Inr:
  "pkcs7_pad_default d = Inr (d @ replicate (16 - length d mod 16) (word_of_nat (16 - length d mod 16)))"
  by (simp add: pkcs7_pad_default_def pkcs7_pad_16)

text \<open>The branches only add to the trace.\<close>

lemma encrypt_branch_take:
  "n \<le> length (trace w) \<Longrightarrow> take n (trace (snd (encrypt_branch env w))) = take n (trace w)"
  by (simp add: encrypt_branch_def run_simps split: list.split option.split sum.split)

lemma decrypt_branch_take:
  "n \<le> length (trace w) \<Longrightarrow> take n (trace (snd (decrypt_branch env iv w))) = take n (trace w)"
  by (simp add: decrypt_branch_def run_simps split: list.split option.split sum.split)

lemma encrypt_branch_outcome:
  "fst (encrypt_branch env w) \<in> {Inr (), Inl EOFError, Inl UnicodeEncodeError}"
  by (simp add: encrypt_branch_def run_simps pkcs7_pad_default_Inr
      split: list.split option.split)

lemma decrypt_branch_outcome:
  "fst (decrypt_branch env iv w) \<in>
     {Inr (), Inl EOFError, Inl ValueError, Inl BadCiphertextLength, Inl IndexError}"
  by (auto simp add: decrypt_branch_def run_simps
      split: list.split option.split sum.split dest: py_bytes_Inl pkcs7_unpad_Inl)


lemma encrypt_branch_not_select: "fst (encrypt_branch env w) \<noteq> Inl (SelectFailed a b)"
  using encrypt_branch_outcome [of env w] by auto

lemma decrypt_branch_not_select: "fst (decrypt_branch env iv w) \<noteq> Inl (SelectFailed a b)"
  using decrypt_branch_outcome [of env iv w] by auto

lemma session_select_failed:
  assumes "connection_transmit env (connection w) select_apdu = ((resp, sw1, sw2), c1)"
    and "(sw1, sw2) \<noteq> (0x90, 0x00)"
  shows "session env w =
    (Inl (SelectFailed sw1 sw2),
     w\<lparr>connection := c1,
       trace := trace w @ [Transmit select_apdu, Print_APDU select_apdu sw1 sw2 resp]\<rparr>)"
  using assms by (auto simp add: session_def run_simps)

lemma session_select_ok_prefix:
  assumes "connection_transmit env (connection w) select_apdu = ((resp, 0x90, 0x00), c1)"
  shows "take (length (trace w) + 3) (trace (snd (session env w))) =
    trace w @ [Transmit select_apdu, Print_APDU select_apdu 0x90 0x00 resp,
               Prompt ''Enter 32-byte AES key (hex, 64 chars): '']"
  using assms
  by (simp add: session_def run_simps encrypt_branch_take decrypt_branch_take
      split: list.split option.split)

lemma session_select_ok_outcome:
  assumes "connection_transmit env (connection w) select_apdu = ((resp, 0x90, 0x00), c1)"
  shows "fst (session env w) \<noteq> Inl (SelectFailed a b)"
  using assms
  by (simp add: session_def run_simps encrypt_branch_not_select decrypt_branch_not_select
      split: list.split option.split)

text \<open>
  C4. With the second reader present, let \<open>(sw1, sw2)\<close> be the status word that the card
  returns to the SELECT APDU. The script raises its "Failed to select applet" exception if
  and only if \<open>(sw1, sw2)\<close> differs from \<open>(0x90, 0x00)\<close>, and then nothing follows the line
  printed for the SELECT; on \<open>(0x90, 0x00)\<close> the next thing it does is prompt for the key.
\<close>

theorem select_status_checked:
  assumes "readers env = r0 # r1 # rs"
    and "connection_transmit env (createConnection r1) select_apdu = ((resp, sw1, sw2), c1)"
  shows "((\<exists>a b. fst (script env lines) = Inl (SelectFailed a b)) \<longleftrightarrow> (sw1, sw2) \<noteq> (0x90, 0x00)) \<and>
         ((sw1, sw2) \<noteq> (0x90, 0x00) \<longrightarrow>
            script env lines =
              (Inl (SelectFailed sw1 sw2),
               [Print_Using_Reader (reader_name r1), Transmit select_apdu,
                Print_APDU select_apdu sw1 sw2 resp])) \<and>
         ((sw1, sw2) = (0x90, 0x00) \<longrightarrow>
            take 4 (snd (script env lines)) =
              [Print_Using_Reader (reader_name r1), Transmit select_apdu,
               Print_APDU select_apdu sw1 sw2 resp,
               Prompt ''Enter 32-byte AES key (hex, 64 chars): ''])"
proof -
  let ?w = "\<lparr>connection = createConnection r1, stdin = lines,
             trace = [Print_Using_Reader (reader_name r1)]\<rparr>"
  have run: "script env lines = (fst (session env ?w), trace (snd (session env ?w)))"
    by (rule script_two_readers [OF assms(1)])
  have sel: "connection_transmit env (connection ?w) select_apdu = ((resp, sw1, sw2), c1)"
    using assms(2) by simp
  show ?thesis
  proof (cases "(sw1, sw2) = (0x90, 0x00)")
    case True
    then have sel': "connection_transmit env (connection ?w) select_apdu = ((resp, 0x90, 0x00), c1)"
      using sel by simp
    have "\<And>a b. fst (session env ?w) \<noteq> Inl (SelectFailed a b)"
      by (rule session_select_ok_outcome [OF sel'])
    moreover have "take 4 (trace (snd (session env ?w))) =
        [Print_Using_Reader (reader_name r1), Transmit select_apdu,
         Print_APDU select_apdu 0x90 0x00 resp,
         Prompt ''Enter 32-byte AES key (hex, 64 chars): '']"
      using session_select_ok_prefix [OF sel'] by simp
    ultimately show ?thesis using True by (simp add: run)
  next
    case False
    from session_select_failed [OF sel False] False show ?thesis
      by (simp add: run)
  qed
qed

section \<open>The session up to the action, and the decrypt branch\<close>

lemma transmit_answer:
  obtains response sw1 sw2 c' where
    "connection_transmit env c a = ((response, sw1, sw2), c')"
  by (metis prod.exhaust_sel)

lemma session_to_action:
  assumes "connection_transmit env (connection w) select_apdu = ((resp, 0x90, 0x00), c1)"
    and "stdin w = key_line # iv_line # rest"
    and "bytes_fromhex env (str_strip env key_line) = Some key"
    and "bytes_fromhex env (str_strip env iv_line) = Some iv"
    and "connection_transmit env c1 ([CLA, INS_SET_KEY, 0x00, 0x00, int (length key)] @ py_list key)
           = ((rk, sw1k, sw2k), c2)"
    and "connection_transmit env c2 ([CLA, INS_SET_IV, 0x00, 0x00, int (length iv)] @ py_list iv)
           = ((ri, sw1i, sw2i), c3)"
  shows "session env w =
    io_bind (input ''Choose action (encrypt/decrypt): '') (\<lambda>action_line.
       let action = str_lower env (str_strip env action_line)
       in if action = ''encrypt'' then encrypt_branch env
          else if action = ''decrypt'' then decrypt_branch env iv
          else print Print_Invalid_Action)
      (w\<lparr>connection := c3, stdin := rest,
         trace := trace w @
           [Transmit select_apdu, Print_APDU select_apdu 0x90 0x00 resp,
            Prompt ''Enter 32-byte AES key (hex, 64 chars): '',
            Prompt ''Enter 16-byte IV (hex, 32 chars): '',
            Transmit ([CLA, INS_SET_KEY, 0x00, 0x00, int (length key)] @ py_list key),
            Print_APDU ([CLA, INS_SET_KEY, 0x00, 0x00, int (length key)] @ py_list key) sw1k sw2k rk,
            Transmit ([CLA, INS_SET_IV, 0x00, 0x00, int (length iv)] @ py_list iv),
            Print_APDU ([CLA, INS_SET_IV, 0x00, 0x00, int (length iv)] @ py_list iv) sw1i sw2i ri]\<rparr>)"
  using assms by (simp add: session_def run_simps split: list.split)

lemma action_take:
  "take (Suc (length (trace w))) (trace (snd (io_bind (input p) (\<lambda>action_line.
       let action = str_lower env (str_strip env action_line)
       in if action = ''encrypt'' then encrypt_branch env
          else if action = ''decrypt'' then decrypt_branch env iv
          else print Print_Invalid_Action) w))) = trace w @ [Prompt p]"
  by (simp add: run_simps encrypt_branch_take decrypt_branch_take split: list.split)

lemma decrypt_branch_bad_length:
  assumes "stdin w = ct_line # rest"
    and "bytes_fromhex env (str_strip env ct_line) = Some ciphertext"
    and "int (length ciphertext) mod 16 \<noteq> 0"
  shows "decrypt_branch env iv w =
    (Inl BadCiphertextLength,
     w\<lparr>stdin := rest, trace := trace w @ [Prompt ''Enter ciphertext (hex): '']\<rparr>)"
  using assms by (simp add: decrypt_branch_def run_simps)

lemma decrypt_branch_good_length:
  assumes "stdin w = ct_line # rest"
    and "bytes_fromhex env (str_strip env ct_line) = Some ciphertext"
    and "int (length ciphertext) mod 16 = 0"
  shows "fst (decrypt_branch env iv w) \<noteq> Inl BadCiphertextLength"
    and "transmitted (trace (snd (decrypt_branch env iv w))) =
      transmitted (trace w) @
        [[CLA, INS_SET_IV, 0x00, 0x00, int (length iv)] @ py_list iv,
         [CLA, INS_DECRYPT, 0x00, 0x00, int (length ciphertext)] @ py_list ciphertext]"
    and "take (length (trace w) + 4) (trace (snd (decrypt_branch env iv w))) =
      trace w @
        [Prompt ''Enter ciphertext (hex): '',
         Transmit ([CLA, INS_SET_IV, 0x00, 0x00, int (length iv)] @ py_list iv),
         Print_APDU ([CLA, INS_SET_IV, 0x00, 0x00, int (length iv)] @ py_list iv)
           (fst (snd (fst (connection_transmit env (connection w)
              ([CLA, INS_SET_IV, 0x00, 0x00, int (length iv)] @ py_list iv)))))
           (snd (snd (fst (connection_transmit env (connection w)
              ([CLA, INS_SET_IV, 0x00, 0x00, int (length iv)] @ py_list iv)))))
           (fst (fst (connection_transmit env (connection w)
              ([CLA, INS_SET_IV, 0x00, 0x00, int (length iv)] @ py_list iv)))),
         Transmit ([CLA, INS_DECRYPT, 0x00, 0x00, int (length ciphertext)] @ py_list ciphertext)]"
  using assms
  by (auto simp add: decrypt_branch_def run_simps split: sum.split
      dest: py_bytes_Inl pkcs7_unpad_Inl)

lemma script_to_action:
  assumes "readers env = r0 # r1 # rs"
    and "connection_transmit env (createConnection r1) select_apdu = ((resp, 0x90, 0x00), c1)"
    and "lines = key_line # iv_line # rest"
    and "bytes_fromhex env (str_strip env key_line) = Some key"
    and "bytes_fromhex env (str_strip env iv_line) = Some iv"
    and "connection_transmit env c1 ([CLA, INS_SET_KEY, 0x00, 0x00, int (length key)] @ py_list key)
           = ((rk, sw1k, sw2k), c2)"
    and "connection_transmit env c2 ([CLA, INS_SET_IV, 0x00, 0x00, int (length iv)] @ py_list iv)
           = ((ri, sw1i, sw2i), c3)"
    and "m = io_bind (input ''Choose action (encrypt/decrypt): '') (\<lambda>action_line.
       let action = str_lower env (str_strip env action_line)
       in if action = ''encrypt'' then encrypt_branch env
          else if action = ''decrypt'' then decrypt_branch env iv
          else print Print_Invalid_Action)
      \<lparr>connection = c3, stdin = rest,
       trace =
           [Print_Using_Reader (reader_name r1),
            Transmit select_apdu, Print_APDU select_apdu 0x90 0x00 resp,
            Prompt ''Enter 32-byte AES key (hex, 64 chars): '',
            Prompt ''Enter 16-byte IV (hex, 32 chars): '',
            Transmit ([CLA, INS_SET_KEY, 0x00, 0x00, int (length key)] @ py_list key),
            Print_APDU ([CLA, INS_SET_KEY, 0x00, 0x00, int (length key)] @ py_list key) sw1k sw2k rk,
            Transmit ([CLA, INS_SET_IV, 0x00, 0x00, int (length iv)] @ py_list iv),
            Print_APDU ([CLA, INS_SET_IV, 0x00, 0x00, int (length iv)] @ py_list iv) sw1i sw2i ri]\<rparr>"
  shows "script env lines = (fst m, trace (snd m))"
proof -
  let ?w = "\<lparr>connection = createConnection r1, stdin = lines,
             trace = [Print_Using_Reader (reader_name r1)]\<rparr>"
  have sel: "connection_transmit env (connection ?w) select_apdu = ((resp, 0x90, 0x00), c1)"
    using assms(2) by simp
  have inp: "stdin ?w = key_line # iv_line # rest"
    using assms(3) by simp
  show ?thesis
    unfolding script_two_readers [OF assms(1)]
      session_to_action [OF sel inp assms(4) assms(5) assms(6) assms(7)] assms(8)
    by simp
qed

lemma script_take_10:
  assumes "readers env = r0 # r1 # rs"
    and "connection_transmit env (createConnection r1) select_apdu = ((resp, 0x90, 0x00), c1)"
    and "lines = key_line # iv_line # rest"
    and "bytes_fromhex env (str_strip env key_line) = Some key"
    and "bytes_fromhex env (str_strip env iv_line) = Some iv"
    and "connection_transmit env c1 ([CLA, INS_SET_KEY, 0x00, 0x00, int (length key)] @ py_list key)
           = ((rk, sw1k, sw2k), c2)"
    and "connection_transmit env c2 ([CLA, INS_SET_IV, 0x00, 0x00, int (length iv)] @ py_list iv)
           = ((ri, sw1i, sw2i), c3)"
  shows "take 10 (snd (script env lines)) =
           [Print_Using_Reader (reader_name r1),
            Transmit select_apdu, Print_APDU select_apdu 0x90 0x00 resp,
            Prompt ''Enter 32-byte AES key (hex, 64 chars): '',
            Prompt ''Enter 16-byte IV (hex, 32 chars): '',
            Transmit ([CLA, INS_SET_KEY, 0x00, 0x00, int (length key)] @ py_list key),
            Print_APDU ([CLA, INS_SET_KEY, 0x00, 0x00, int (length key)] @ py_list key) sw1k sw2k rk,
            Transmit ([CLA, INS_SET_IV, 0x00, 0x00, int (length iv)] @ py_list iv),
            Print_APDU ([CLA, INS_SET_IV, 0x00, 0x00, int (length iv)] @ py_list iv) sw1i sw2i ri,
            Prompt ''Choose action (encrypt/decrypt): '']"
  unfolding script_to_action [OF assms refl]
  using action_take [of "\<lparr>connection = c3, stdin = rest,
       trace =
           [Print_Using_Reader (reader_name r1),
            Transmit select_apdu, Print_APDU select_apdu 0x90 0x00 resp,
            Prompt ''Enter 32-byte AES key (hex, 64 chars): '',
            Prompt ''Enter 16-byte IV (hex, 32 chars): '',
            Transmit ([CLA, INS_SET_KEY, 0x00, 0x00, int (length key)] @ py_list key),
            Print_APDU ([CLA, INS_SET_KEY, 0x00, 0x00, int (length key)] @ py_list key) sw1k sw2k rk,
            Transmit ([CLA, INS_SET_IV, 0x00, 0x00, int (length iv)] @ py_list iv),
            Print_APDU ([CLA, INS_SET_IV, 0x00, 0x00, int (length iv)] @ py_list iv) sw1i sw2i ri]\<rparr>"
       "''Choose action (encrypt/decrypt): ''" env iv]
  by (simp add: eval_nat_numeral)

lemma script_override:
  "fst (script (override_status f env) lines) = fst (script env lines) \<and>
   map redact (snd (script (override_status f env) lines)) = map redact (snd (script env lines))"
  by (simp add: script_def Let_def case_prod_beta session_override split: sum.split)

section \<open>Claims about the session\<close>

lemma script_decrypt_flow:
  assumes "readers env = r0 # r1 # rs"
    and "connection_transmit env (createConnection r1) select_apdu = ((resp, 0x90, 0x00), c1)"
    and "lines = key_line # iv_line # action_line # rest"
    and "bytes_fromhex env (str_strip env key_line) = Some key"
    and "bytes_fromhex env (str_strip env iv_line) = Some iv"
    and "connection_transmit env c1 ([CLA, INS_SET_KEY, 0x00, 0x00, int (length key)] @ py_list key)
           = ((rk, sw1k, sw2k), c2)"
    and "connection_transmit env c2 ([CLA, INS_SET_IV, 0x00, 0x00, int (length iv)] @ py_list iv)
           = ((ri, sw1i, sw2i), c3)"
    and "str_lower env (str_strip env action_line) = ''decrypt''"
    and "m = decrypt_branch env iv
      \<lparr>connection = c3, stdin = rest,
       trace =
           [Print_Using_Reader (reader_name r1),
            Transmit select_apdu, Print_APDU select_apdu 0x90 0x00 resp,
            Prompt ''Enter 32-byte AES key (hex, 64 chars): '',
            Prompt ''Enter 16-byte IV (hex, 32 chars): '',
            Transmit ([CLA, INS_SET_KEY, 0x00, 0x00, int (length key)] @ py_list key),
            Print_APDU ([CLA, INS_SET_KEY, 0x00, 0x00, int (length key)] @ py_list key) sw1k sw2k rk,
            Transmit ([CLA, INS_SET_IV, 0x00, 0x00, int (length iv)] @ py_list iv),
            Print_APDU ([CLA, INS_SET_IV, 0x00, 0x00, int (length iv)] @ py_list iv) sw1i sw2i ri,
            Prompt ''Choose action (encrypt/decrypt): '']\<rparr>"
  shows "script env lines = (fst m, trace (snd m))"
  unfolding script_to_action [OF assms(1-7) refl] assms(9)
  using assms(8) by (simp add: run_simps)

text \<open>
  C5. Whatever status words \<open>(sw1k, sw2k)\<close> and \<open>(sw1i, sw2i)\<close> the card returns to SET_KEY
  and SET_IV, the script prints them and goes on to the action prompt: the first ten
  events of the run are fixed, and no exception is raised before the prompt. The status
  words are never inspected: a card that differs only in the status words of its answers
  to SET_KEY and SET_IV gives a run that ends the same way and has the same trace, up to
  these printed status words.
\<close>

theorem set_key_iv_status_ignored:
  assumes "readers env = r0 # r1 # rs"
    and "connection_transmit env (createConnection r1) select_apdu = ((resp, 0x90, 0x00), c1)"
    and "lines = key_line # iv_line # rest"
    and "bytes_fromhex env (str_strip env key_line) = Some key"
    and "bytes_fromhex env (str_strip env iv_line) = Some iv"
    and "connection_transmit env c1 (spec_frame CLA INS_SET_KEY 0x00 0x00 (py_list key))
           = ((rk, sw1k, sw2k), c2)"
    and "connection_transmit env c2 (spec_frame CLA INS_SET_IV 0x00 0x00 (py_list iv))
           = ((ri, sw1i, sw2i), c3)"
  shows "take 10 (snd (script env lines)) =
           [Print_Using_Reader (reader_name r1),
            Transmit select_apdu, Print_APDU select_apdu 0x90 0x00 resp,
            Prompt ''Enter 32-byte AES key (hex, 64 chars): '',
            Prompt ''Enter 16-byte IV (hex, 32 chars): '',
            Transmit (spec_frame CLA INS_SET_KEY 0x00 0x00 (py_list key)),
            Print_APDU (spec_frame CLA INS_SET_KEY 0x00 0x00 (py_list key)) sw1k sw2k rk,
            Transmit (spec_frame CLA INS_SET_IV 0x00 0x00 (py_list iv)),
            Print_APDU (spec_frame CLA INS_SET_IV 0x00 0x00 (py_list iv)) sw1i sw2i ri,
            Prompt ''Choose action (encrypt/decrypt): ''] \<and>
         fst (script (override_status f env) lines) = fst (script env lines) \<and>
         map redact (snd (script (override_status f env) lines)) =
           map redact (snd (script env lines))"
proof -
  have k: "connection_transmit env c1 ([CLA, INS_SET_KEY, 0x00, 0x00, int (length key)] @ py_list key)
           = ((rk, sw1k, sw2k), c2)"
    using assms(6) by (simp add: spec_frame_Cons)
  have i: "connection_transmit env c2 ([CLA, INS_SET_IV, 0x00, 0x00, int (length iv)] @ py_list iv)
           = ((ri, sw1i, sw2i), c3)"
    using assms(7) by (simp add: spec_frame_Cons)
  show ?thesis
    using script_take_10 [OF assms(1-5) k i] script_override [of f env lines]
    by (simp add: spec_frame_Cons)
qed

text \<open>
  C6. In the decrypt flow (second reader present, SELECT answered \<open>9000\<close>, key and IV
  parsed, action \<^verbatim>\<open>decrypt\<close>, ciphertext parsed): if the length of the ciphertext is not a
  multiple of 16, the run ends with the "Ciphertext length" exception right after the
  ciphertext prompt, and the only APDUs transmitted are SELECT, SET_KEY and SET_IV, so
  neither the second SET_IV nor DECRYPT is sent; if the length is a multiple of 16, the run
  does not end with that exception, and SET_IV and DECRYPT are sent.
\<close>

theorem decrypt_length_check:
  assumes "readers env = r0 # r1 # rs"
    and "connection_transmit env (createConnection r1) select_apdu = ((resp, 0x90, 0x00), c1)"
    and "lines = key_line # iv_line # action_line # ct_line # rest"
    and "bytes_fromhex env (str_strip env key_line) = Some key"
    and "bytes_fromhex env (str_strip env iv_line) = Some iv"
    and "str_lower env (str_strip env action_line) = ''decrypt''"
    and "bytes_fromhex env (str_strip env ct_line) = Some ciphertext"
  shows "(int (length ciphertext) mod 16 \<noteq> 0 \<longrightarrow>
            fst (script env lines) = Inl BadCiphertextLength \<and>
            last (snd (script env lines)) = Prompt ''Enter ciphertext (hex): '' \<and>
            transmitted (snd (script env lines)) =
              [select_apdu,
               spec_frame CLA INS_SET_KEY 0x00 0x00 (py_list key),
               spec_frame CLA INS_SET_IV 0x00 0x00 (py_list iv)]) \<and>
         (int (length ciphertext) mod 16 = 0 \<longrightarrow>
            fst (script env lines) \<noteq> Inl BadCiphertextLength \<and>
            transmitted (snd (script env lines)) =
              [select_apdu,
               spec_frame CLA INS_SET_KEY 0x00 0x00 (py_list key),
               spec_frame CLA INS_SET_IV 0x00 0x00 (py_list iv),
               spec_frame CLA INS_SET_IV 0x00 0x00 (py_list iv),
               spec_frame CLA INS_DECRYPT 0x00 0x00 (py_list ciphertext)])"
proof -
  obtain rk sw1k sw2k c2 where
    k: "connection_transmit env c1 ([CLA, INS_SET_KEY, 0x00, 0x00, int (length key)] @ py_list key)
           = ((rk, sw1k, sw2k), c2)"
    by (rule transmit_answer)
  obtain ri sw1i sw2i c3 where
    i: "connection_transmit env c2 ([CLA, INS_SET_IV, 0x00, 0x00, int (length iv)] @ py_list iv)
           = ((ri, sw1i, sw2i), c3)"
    by (rule transmit_answer)
  let ?w = "\<lparr>connection = c3, stdin = ct_line # rest,
       trace =
           [Print_Using_Reader (reader_name r1),
            Transmit select_apdu, Print_APDU select_apdu 0x90 0x00 resp,
            Prompt ''Enter 32-byte AES key (hex, 64 chars): '',
            Prompt ''Enter 16-byte IV (hex, 32 chars): '',
            Transmit ([CLA, INS_SET_KEY, 0x00, 0x00, int (length key)] @ py_list key),
            Print_APDU ([CLA, INS_SET_KEY, 0x00, 0x00, int (length key)] @ py_list key) sw1k sw2k rk,
            Transmit ([CLA, INS_SET_IV, 0x00, 0x00, int (length iv)] @ py_list iv),
            Print_APDU ([CLA, INS_SET_IV, 0x00, 0x00, int (length iv)] @ py_list iv) sw1i sw2i ri,
            Prompt ''Choose action (encrypt/decrypt): '']\<rparr>"
  have run: "script env lines =
      (fst (decrypt_branch env iv ?w), trace (snd (decrypt_branch env iv ?w)))"
    by (rule script_decrypt_flow [OF assms(1-5) k i assms(6) refl])
  have inp: "stdin ?w = ct_line # rest" by simp
  show ?thesis
  proof (cases "int (length ciphertext) mod 16 = 0")
    case True
    from decrypt_branch_good_length(1,2) [OF inp assms(7) True, of iv] True show ?thesis
      by (simp add: run spec_frame_Cons)
  next
    case False
    from decrypt_branch_bad_length [OF inp assms(7) False, of iv] False show ?thesis
      by (simp add: run spec_frame_Cons)
  qed
qed

text \<open>
  C8. In the decrypt flow with a ciphertext whose length is a multiple of 16, the SET_IV
  APDU carrying the IV entered at the start of the session is transmitted a second time
  after the ciphertext prompt (event 11; the first time is event 7), and the DECRYPT APDU
  is transmitted after it (event 13); before the DECRYPT, the APDUs sent are SELECT,
  SET_KEY, SET_IV and SET_IV again.
\<close>

theorem iv_reset_before_decrypt:
  assumes "readers env = r0 # r1 # rs"
    and "connection_transmit env (createConnection r1) select_apdu = ((resp, 0x90, 0x00), c1)"
    and "lines = key_line # iv_line # action_line # ct_line # rest"
    and "bytes_fromhex env (str_strip env key_line) = Some key"
    and "bytes_fromhex env (str_strip env iv_line) = Some iv"
    and "str_lower env (str_strip env action_line) = ''decrypt''"
    and "bytes_fromhex env (str_strip env ct_line) = Some ciphertext"
    and "int (length ciphertext) mod 16 = 0"
  shows "snd (script env lines) ! 7 = Transmit (spec_frame CLA INS_SET_IV 0x00 0x00 (py_list iv)) \<and>
         snd (script env lines) ! 10 = Prompt ''Enter ciphertext (hex): '' \<and>
         snd (script env lines) ! 11 = Transmit (spec_frame CLA INS_SET_IV 0x00 0x00 (py_list iv)) \<and>
         snd (script env lines) ! 13 =
           Transmit (spec_frame CLA INS_DECRYPT 0x00 0x00 (py_list ciphertext)) \<and>
         14 \<le> length (snd (script env lines)) \<and>
         transmitted (take 13 (snd (script env lines))) =
           [select_apdu,
            spec_frame CLA INS_SET_KEY 0x00 0x00 (py_list key),
            spec_frame CLA INS_SET_IV 0x00 0x00 (py_list iv),
            spec_frame CLA INS_SET_IV 0x00 0x00 (py_list iv)]"
proof -
  obtain rk sw1k sw2k c2 where
    k: "connection_transmit env c1 ([CLA, INS_SET_KEY, 0x00, 0x00, int (length key)] @ py_list key)
           = ((rk, sw1k, sw2k), c2)"
    by (rule transmit_answer)
  obtain ri sw1i sw2i c3 where
    i: "connection_transmit env c2 ([CLA, INS_SET_IV, 0x00, 0x00, int (length iv)] @ py_list iv)
           = ((ri, sw1i, sw2i), c3)"
    by (rule transmit_answer)
  let ?w = "\<lparr>connection = c3, stdin = ct_line # rest,
       trace =
           [Print_Using_Reader (reader_name r1),
            Transmit select_apdu, Print_APDU select_apdu 0x90 0x00 resp,
            Prompt ''Enter 32-byte AES key (hex, 64 chars): '',
            Prompt ''Enter 16-byte IV (hex, 32 chars): '',
            Transmit ([CLA, INS_SET_KEY, 0x00, 0x00, int (length key)] @ py_list key),
            Print_APDU ([CLA, INS_SET_KEY, 0x00, 0x00, int (length key)] @ py_list key) sw1k sw2k rk,
            Transmit ([CLA, INS_SET_IV, 0x00, 0x00, int (length iv)] @ py_list iv),
            Print_APDU ([CLA, INS_SET_IV, 0x00, 0x00, int (length iv)] @ py_list iv) sw1i sw2i ri,
            Prompt ''Choose action (encrypt/decrypt): '']\<rparr>"
  let ?tr = "snd (script env lines)"
  have run: "script env lines =
      (fst (decrypt_branch env iv ?w), trace (snd (decrypt_branch env iv ?w)))"
    by (rule script_decrypt_flow [OF assms(1-5) k i assms(6) refl])
  have inp: "stdin ?w = ct_line # rest" by simp
  let ?I = "[CLA, INS_SET_IV, 0x00, 0x00, int (length iv)] @ py_list iv"
  let ?D = "[CLA, INS_DECRYPT, 0x00, 0x00, int (length ciphertext)] @ py_list ciphertext"
  let ?e = "Print_APDU ?I
           (fst (snd (fst (connection_transmit env (connection ?w) ?I))))
           (snd (snd (fst (connection_transmit env (connection ?w) ?I))))
           (fst (fst (connection_transmit env (connection ?w) ?I)))"
  have t14: "take 14 ?tr =
      trace ?w @ [Prompt ''Enter ciphertext (hex): '', Transmit ?I, ?e, Transmit ?D]"
    using decrypt_branch_good_length(3) [OF inp assms(7) assms(8), of iv]
    by (simp add: run)
  have len: "14 \<le> length ?tr"
  proof (rule ccontr)
    assume "\<not> 14 \<le> length ?tr"
    then have "length (take 14 ?tr) < 14" by simp
    then show False unfolding t14 by simp
  qed
  have "take 14 ?tr ! 7 = Transmit ?I" "take 14 ?tr ! 10 = Prompt ''Enter ciphertext (hex): ''"
    "take 14 ?tr ! 11 = Transmit ?I" "take 14 ?tr ! 13 = Transmit ?D"
    unfolding t14 by simp_all
  then have nth: "?tr ! 7 = Transmit ?I" "?tr ! 10 = Prompt ''Enter ciphertext (hex): ''"
    "?tr ! 11 = Transmit ?I" "?tr ! 13 = Transmit ?D"
    by simp_all
  have "transmitted (take 13 (take 14 ?tr)) =
      [select_apdu, [CLA, INS_SET_KEY, 0x00, 0x00, int (length key)] @ py_list key, ?I, ?I]"
    unfolding t14 by simp
  then have sent: "transmitted (take 13 ?tr) =
      [select_apdu, [CLA, INS_SET_KEY, 0x00, 0x00, int (length key)] @ py_list key, ?I, ?I]"
    by simp
  show ?thesis
    using nth sent len by (simp add: spec_frame_Cons)
qed

lemma select_apdu_value:
  "select_apdu = [0x00, 0xA4, 0x04, 0x00, 0x06, 0xAE, 0x25, 0x6C, 0xBC, 0x00, 0x01]"
  by (simp add: select_apdu_def APPLET_AID_def)

lemma well_framed_select: "well_framed select_apdu"
  by (simp add: select_apdu_value well_framed_def)

lemma well_framed_spec_frame:
  assumes "well_framed a"
  shows "\<exists>cla ins p1 p2 payload. a = spec_frame cla ins p1 p2 payload \<and> a ! 4 = int (length payload)"
proof -
  from assms have l: "5 \<le> length a" and n: "a ! 4 = int (length (drop 5 a))"
    by (simp_all add: well_framed_def)
  from l have "take 5 a = [a ! 0, a ! 1, a ! 2, a ! 3, a ! 4]"
    by (auto simp add: list_eq_iff_nth_eq less_Suc_eq eval_nat_numeral)
  then have "a = [a ! 0, a ! 1, a ! 2, a ! 3, a ! 4] @ drop 5 a"
    by (metis append_take_drop_id)
  with n have "a = spec_frame (a ! 0) (a ! 1) (a ! 2) (a ! 3) (drop 5 a)"
    by (simp add: spec_frame_def)
  with n show ?thesis by blast
qed

lemma session_shape_framed: "session_shape sent \<Longrightarrow> list_all well_framed sent"
  by (induction sent rule: session_shape.induct) (simp_all add: well_framed_select)

lemma hd_take4: "take 4 a = [c, i, p, q] \<Longrightarrow> hd a = c"
  by (cases a) simp_all

lemma session_shape_cla:
  "session_shape sent \<Longrightarrow> take 1 sent = take 1 [select_apdu] \<or> sent = []"
  "session_shape sent \<Longrightarrow> list_all (\<lambda>a. hd a = CLA) (tl sent)"
  by (induction sent rule: session_shape.induct) (auto dest: hd_take4)


text \<open>
  C7. In every run, every APDU transmitted is a frame \<^verbatim>\<open>[CLA, INS, P1, P2, LEN] + payload\<close>
  whose element of index 4 is the length of the payload. When the session reaches SET_KEY
  with a key of 32 bytes, the APDU transmitted is \<^verbatim>\<open>80 10 00 00 20\<close> followed by the 32 bytes
  of the key.
\<close>

theorem apdus_framed:
  shows "list_all
           (\<lambda>a. \<exists>cla ins p1 p2 payload.
                  a = spec_frame cla ins p1 p2 payload \<and> a ! 4 = int (length payload))
           (transmitted (snd (script env lines))) \<and>
         (readers env = r0 # r1 # rs \<and>
          connection_transmit env (createConnection r1) select_apdu = ((resp, 0x90, 0x00), c1) \<and>
          lines = key_line # iv_line # rest \<and>
          bytes_fromhex env (str_strip env key_line) = Some key \<and>
          bytes_fromhex env (str_strip env iv_line) = Some iv \<and>
          length key = 32 \<longrightarrow>
            snd (script env lines) ! 5 = Transmit ([0x80, 0x10, 0x00, 0x00, 0x20] @ py_list key) \<and>
            transmitted (take 6 (snd (script env lines))) =
              [select_apdu, [0x80, 0x10, 0x00, 0x00, 0x20] @ py_list key])"
proof -
  have "list_all well_framed (transmitted (snd (script env lines)))"
    by (rule session_shape_framed [OF script_transmitted_shape])
  then have all: "list_all
           (\<lambda>a. \<exists>cla ins p1 p2 payload.
                  a = spec_frame cla ins p1 p2 payload \<and> a ! 4 = int (length payload))
           (transmitted (snd (script env lines)))"
    unfolding list_all_iff using well_framed_spec_frame by blast
  have key: "snd (script env lines) ! 5 = Transmit ([0x80, 0x10, 0x00, 0x00, 0x20] @ py_list key) \<and>
      transmitted (take 6 (snd (script env lines))) =
        [select_apdu, [0x80, 0x10, 0x00, 0x00, 0x20] @ py_list key]"
    if h: "readers env = r0 # r1 # rs"
      "connection_transmit env (createConnection r1) select_apdu = ((resp, 0x90, 0x00), c1)"
      "lines = key_line # iv_line # rest"
      "bytes_fromhex env (str_strip env key_line) = Some key"
      "bytes_fromhex env (str_strip env iv_line) = Some iv"
      and len: "length key = 32"
  proof -
    let ?tr = "snd (script env lines)"
    obtain rk sw1k sw2k c2 where
      k: "connection_transmit env c1 ([CLA, INS_SET_KEY, 0x00, 0x00, int (length key)] @ py_list key)
             = ((rk, sw1k, sw2k), c2)"
      by (rule transmit_answer)
    obtain ri sw1i sw2i c3 where
      i: "connection_transmit env c2 ([CLA, INS_SET_IV, 0x00, 0x00, int (length iv)] @ py_list iv)
             = ((ri, sw1i, sw2i), c3)"
      by (rule transmit_answer)
    note t10 = script_take_10 [OF h k i]
    have "take 10 ?tr ! 5 = Transmit ([0x80, 0x10, 0x00, 0x00, 0x20] @ py_list key)"
      unfolding t10 using len by (simp add: CLA_def INS_SET_KEY_def)
    then have a: "?tr ! 5 = Transmit ([0x80, 0x10, 0x00, 0x00, 0x20] @ py_list key)"
      by simp
    have "transmitted (take 6 (take 10 ?tr)) =
        [select_apdu, [0x80, 0x10, 0x00, 0x00, 0x20] @ py_list key]"
      unfolding t10 using len by (simp add: CLA_def INS_SET_KEY_def)
    then have "transmitted (take 6 ?tr) =
        [select_apdu, [0x80, 0x10, 0x00, 0x00, 0x20] @ py_list key]"
      by simp
    with a show ?thesis by simp
  qed
  from all key show ?thesis by blast
qed

text \<open>
  C9. The SELECT APDU for the applet identifier \<^verbatim>\<open>AE 25 6C BC 00 01\<close> is
  \<^verbatim>\<open>00 A4 04 00 06 AE 25 6C BC 00 01\<close>, with class byte \<open>0x00\<close>. In every run it is the first
  APDU transmitted, and every APDU after it has the class byte \<open>CLA = 0x80\<close>.
\<close>

theorem select_apdu_bytes:
  shows "select_apdu = [0x00, 0xA4, 0x04, 0x00, 0x06, 0xAE, 0x25, 0x6C, 0xBC, 0x00, 0x01] \<and>
         select_apdu = spec_frame 0x00 0xA4 0x04 0x00 APPLET_AID \<and>
         APPLET_AID = [0xAE, 0x25, 0x6C, 0xBC, 0x00, 0x01] \<and>
         hd select_apdu = 0x00 \<and> CLA = 0x80 \<and>
         take 1 (transmitted (snd (script env lines))) \<in> {[], [select_apdu]} \<and>
         list_all (\<lambda>a. hd a = 0x80) (tl (transmitted (snd (script env lines))))"
proof -
  note shape = script_transmitted_shape [of env lines]
  have sent: "take 1 (transmitted (snd (script env lines))) \<in> {[], [select_apdu]}"
    using session_shape_cla(1) [OF shape] by auto
  have rest: "list_all (\<lambda>a. hd a = 0x80) (tl (transmitted (snd (script env lines))))"
    using session_shape_cla(2) [OF shape] by (simp add: CLA_def)
  have frame: "select_apdu = spec_frame 0x00 0xA4 0x04 0x00 APPLET_AID"
    by (simp add: select_apdu_def spec_frame_def)
  have hd: "hd select_apdu = 0x00"
    by (simp add: select_apdu_value)
  have cla: "CLA = 0x80"
    by (simp add: CLA_def)
  from select_apdu_value frame APPLET_AID_def hd cla sent rest show ?thesis
    by (intro conjI)
qed

lemma transmit_readers [simp]: "transmit (env\<lparr>readers := rs\<rparr>) = transmit env"
  by (intro ext) (simp add: transmit_def)

lemma fromhex_readers [simp]: "fromhex (env\<lparr>readers := rs\<rparr>) = fromhex env"
  by (intro ext) (simp add: fromhex_def)

lemma encode_readers [simp]: "encode (env\<lparr>readers := rs\<rparr>) = encode env"
  by (intro ext) (simp add: encode_def)

lemma encrypt_branch_readers [simp]: "encrypt_branch (env\<lparr>readers := rs\<rparr>) = encrypt_branch env"
  by (simp add: encrypt_branch_def)

lemma decrypt_branch_readers [simp]: "decrypt_branch (env\<lparr>readers := rs\<rparr>) = decrypt_branch env"
  by (intro ext) (simp add: decrypt_branch_def cong: if_cong)

lemma session_readers: "session (env\<lparr>readers := rs\<rparr>) = session env"
  by (simp add: session_def Let_def cong: if_cong)

lemma session_take_trace:
  "take (length (trace w)) (trace (snd (session env w))) = trace w"
  by (simp add: session_def run_simps encrypt_branch_take decrypt_branch_take
      split: list.split option.split)

text \<open>
  C10. With no reader, the script raises its "No smartcard readers found" exception. With
  exactly one reader, \<^verbatim>\<open>all_readers[1]\<close> raises \<^verbatim>\<open>IndexError\<close> before anything is printed or
  transmitted. So a run that does anything, or that ends normally, has at least two
  readers; it uses the second one, and replacing the first reader by any other leaves the
  run unchanged.
\<close>

theorem second_reader_required:
  shows "(readers env = [] \<longrightarrow> script env lines = (Inl NoReadersFound, [])) \<and>
         (readers env = [r] \<longrightarrow> script env lines = (Inl IndexError, [])) \<and>
         (snd (script env lines) \<noteq> [] \<longrightarrow> 2 \<le> length (readers env)) \<and>
         (fst (script env lines) = Inr () \<longrightarrow> 2 \<le> length (readers env)) \<and>
         (readers env = r0 # r1 # rs \<longrightarrow>
            take 1 (snd (script env lines)) = [Print_Using_Reader (reader_name r1)] \<and>
            script (env\<lparr>readers := r0' # r1 # rs\<rparr>) lines = script env lines)"
proof -
  have none: "script env lines = (Inl NoReadersFound, [])" if "readers env = []"
    using that by (simp add: script_def)
  have one: "script env lines = (Inl IndexError, [])" if "readers env = [x]" for x
    using that by (simp add: script_def py_getitem_single)
  have two: "take 1 (snd (script env lines)) = [Print_Using_Reader (reader_name r1)] \<and>
      script (env\<lparr>readers := r0' # r1 # rs\<rparr>) lines = script env lines"
    if h: "readers env = r0 # r1 # rs"
  proof -
    let ?w = "\<lparr>connection = createConnection r1, stdin = lines,
               trace = [Print_Using_Reader (reader_name r1)]\<rparr>"
    have "readers (env\<lparr>readers := r0' # r1 # rs\<rparr>) = r0' # r1 # rs" by simp
    from script_two_readers [OF this, of lines] script_two_readers [OF h, of lines]
    have "script (env\<lparr>readers := r0' # r1 # rs\<rparr>) lines = script env lines"
      by (simp add: session_readers)
    moreover have "take 1 (trace (snd (session env ?w))) = [Print_Using_Reader (reader_name r1)]"
      using session_take_trace [of ?w env] by simp
    ultimately show ?thesis
      by (simp add: script_two_readers [OF h])
  qed
  have len: "2 \<le> length (readers env)"
    if "snd (script env lines) \<noteq> [] \<or> fst (script env lines) = Inr ()"
  proof (cases "readers env")
    case Nil
    with none that show ?thesis by simp
  next
    case (Cons x xs)
    show ?thesis
    proof (cases xs)
      case Nil
      with Cons one [of x] that show ?thesis by simp
    next
      case (Cons y ys)
      with \<open>readers env = x # xs\<close> show ?thesis by simp
    qed
  qed
  from none one [of r] two len show ?thesis by blast
qed

section \<open>Evaluating the sample environment\<close>

lemma hex_val_simps [simp]:
  "hex_val CHR ''0'' = Some 0" "hex_val CHR ''1'' = Some 1" "hex_val CHR ''2'' = Some 2"
  "hex_val CHR ''3'' = Some 3" "hex_val CHR ''4'' = Some 4" "hex_val CHR ''5'' = Some 5"
  "hex_val CHR ''6'' = Some 6" "hex_val CHR ''7'' = Some 7" "hex_val CHR ''8'' = Some 8"
  "hex_val CHR ''9'' = Some 9" "hex_val CHR ''a'' = Some 10" "hex_val CHR ''b'' = Some 11"
  "hex_val CHR ''c'' = Some 12" "hex_val CHR ''d'' = Some 13" "hex_val CHR ''e'' = Some 14"
  "hex_val CHR ''f'' = Some 15" "hex_val CHR ''A'' = Some 10" "hex_val CHR ''B'' = Some 11"
  "hex_val CHR ''C'' = Some 12" "hex_val CHR ''D'' = Some 13" "hex_val CHR ''E'' = Some 14"
  "hex_val CHR ''F'' = Some 15"
  by (simp_all add: hex_val_def)

lemma sample_key_parsed: "hex_pairs (strip_spaces sample_key_line) = Some sample_key"
  by (simp add: sample_key_line_def sample_key_def strip_spaces_def)

lemma sample_iv_parsed: "hex_pairs (strip_spaces sample_iv_line) = Some sample_iv"
  by (simp add: sample_iv_line_def sample_iv_def strip_spaces_def)

lemma sample_action: "ascii_lower (strip_spaces '' Decrypt '') = ''decrypt''"
  by (simp add: ascii_lower_def strip_spaces_def)

lemma sample_ct_good:
  "hex_pairs (strip_spaces ''00112233445566778899aabbccddeeff'') =
     Some [0x00, 0x11, 0x22, 0x33, 0x44, 0x55, 0x66, 0x77, 0x88, 0x99, 0xAA, 0xBB, 0xCC, 0xDD,
           0xEE, 0xFF]"
  by (simp add: strip_spaces_def)

lemma sample_ct_bad:
  "hex_pairs (strip_spaces ''00112233445566778899aabbccddee'') =
     Some [0x00, 0x11, 0x22, 0x33, 0x44, 0x55, 0x66, 0x77, 0x88, 0x99, 0xAA, 0xBB, 0xCC, 0xDD,
           0xEE]"
  by (simp add: strip_spaces_def)

lemma sample_env_fields [simp]:
  "readers (sample_env sw) =
     [\<lparr>reader_name = ''contact reader'', createConnection = 100\<rparr>,
      \<lparr>reader_name = ''contactless reader'', createConnection = 0\<rparr>]"
  "connection_transmit (sample_env sw) = sample_card sw"
  "str_strip (sample_env sw) = strip_spaces"
  "str_lower (sample_env sw) = ascii_lower"
  "bytes_fromhex (sample_env sw) = hex_pairs"
  "str_encode (sample_env sw) = ascii_encode"
  by (simp_all add: sample_env_def)

lemma sample_card_select: "sample_card sw n select_apdu = (([], fst sw, snd sw), Suc n)"
  by (simp add: sample_card_def)

lemma sample_card_command:
  "sample_card sw n (spec_frame CLA ins p1 p2 payload) = ((payload, 0x6D, 0x00), Suc n)"
  by (simp add: sample_card_def spec_frame_def select_apdu_value CLA_def)

section \<open>The claims on the sample environment\<close>

text \<open>SELECT answered \<open>6A82\<close> stops the run; answered \<open>9000\<close>, the key is asked for.\<close>

theorem select_status_checked_witness:
  "script (sample_env (0x6A, 0x82)) [] =
     (Inl (SelectFailed 0x6A 0x82),
      [Print_Using_Reader ''contactless reader'', Transmit select_apdu,
       Print_APDU select_apdu 0x6A 0x82 []]) \<and>
   take 4 (snd (script (sample_env (0x90, 0x00)) [])) =
     [Print_Using_Reader ''contactless reader'', Transmit select_apdu,
      Print_APDU select_apdu 0x90 0x00 [],
      Prompt ''Enter 32-byte AES key (hex, 64 chars): '']"
  using
    select_status_checked [where env = "sample_env (0x6A, 0x82)" and lines = "[]",
      OF sample_env_fields(1), where ?sw1.0 = "0x6A" and ?sw2.0 = "0x82" and resp = "[]" and ?c1.0 = 1]
    select_status_checked [where env = "sample_env (0x90, 0x00)" and lines = "[]",
      OF sample_env_fields(1), where ?sw1.0 = "0x90" and ?sw2.0 = "0x00" and resp = "[]" and ?c1.0 = 1]
  by (simp add: sample_card_select)

lemma sample_select_ok:
  "connection_transmit (sample_env (0x90, 0x00))
     (createConnection \<lparr>reader_name = ''contactless reader'', createConnection = 0\<rparr>) select_apdu =
   (([], 0x90, 0x00), 1)"
  by (simp add: sample_card_select)

text \<open>The sample card answers SET_KEY and SET_IV with \<open>6D00\<close>; the action prompt follows.\<close>

theorem set_key_iv_status_ignored_witness:
  "take 10 (snd (script (sample_env (0x90, 0x00)) [sample_key_line, sample_iv_line])) =
     [Print_Using_Reader ''contactless reader'',
      Transmit select_apdu, Print_APDU select_apdu 0x90 0x00 [],
      Prompt ''Enter 32-byte AES key (hex, 64 chars): '',
      Prompt ''Enter 16-byte IV (hex, 32 chars): '',
      Transmit (spec_frame CLA INS_SET_KEY 0x00 0x00 (py_list sample_key)),
      Print_APDU (spec_frame CLA INS_SET_KEY 0x00 0x00 (py_list sample_key)) 0x6D 0x00
        (py_list sample_key),
      Transmit (spec_frame CLA INS_SET_IV 0x00 0x00 (py_list sample_iv)),
      Print_APDU (spec_frame CLA INS_SET_IV 0x00 0x00 (py_list sample_iv)) 0x6D 0x00
        (py_list sample_iv),
      Prompt ''Choose action (encrypt/decrypt): '']"
  using set_key_iv_status_ignored
    [OF sample_env_fields(1) sample_select_ok refl,
      where key = sample_key and iv = sample_iv and rk = "py_list sample_key"
        and ri = "py_list sample_iv" and ?sw1k.0 = "0x6D" and ?sw2k.0 = "0x00"
        and ?sw1i.0 = "0x6D" and ?sw2i.0 = "0x00" and ?c2.0 = 2 and ?c3.0 = 3]
  by (simp add: sample_key_parsed sample_iv_parsed sample_card_command)

text \<open>A ciphertext of 15 bytes, and one of 16 bytes.\<close>

theorem decrypt_length_check_witness:
  "fst (script (sample_env (0x90, 0x00))
         [sample_key_line, sample_iv_line, '' Decrypt '', ''00112233445566778899aabbccddee''])
     = Inl BadCiphertextLength \<and>
   transmitted (snd (script (sample_env (0x90, 0x00))
         [sample_key_line, sample_iv_line, '' Decrypt '', ''00112233445566778899aabbccddee'']))
     = [select_apdu,
        spec_frame CLA INS_SET_KEY 0x00 0x00 (py_list sample_key),
        spec_frame CLA INS_SET_IV 0x00 0x00 (py_list sample_iv)] \<and>
   fst (script (sample_env (0x90, 0x00))
         [sample_key_line, sample_iv_line, '' Decrypt '', ''00112233445566778899aabbccddeeff''])
     \<noteq> Inl BadCiphertextLength \<and>
   transmitted (snd (script (sample_env (0x90, 0x00))
         [sample_key_line, sample_iv_line, '' Decrypt '', ''00112233445566778899aabbccddeeff'']))
     = [select_apdu,
        spec_frame CLA INS_SET_KEY 0x00 0x00 (py_list sample_key),
        spec_frame CLA INS_SET_IV 0x00 0x00 (py_list sample_iv),
        spec_frame CLA INS_SET_IV 0x00 0x00 (py_list sample_iv),
        spec_frame CLA INS_DECRYPT 0x00 0x00
          [0x00, 0x11, 0x22, 0x33, 0x44, 0x55, 0x66, 0x77, 0x88, 0x99, 0xAA, 0xBB, 0xCC, 0xDD,
           0xEE, 0xFF]]"
  using
    decrypt_length_check
      [OF sample_env_fields(1) sample_select_ok refl,
        where key = sample_key and iv = sample_iv and rest = "[]"
          and ciphertext = "[0x00, 0x11, 0x22, 0x33, 0x44, 0x55, 0x66, 0x77, 0x88, 0x99, 0xAA,
             0xBB, 0xCC, 0xDD, 0xEE]"]
    decrypt_length_check
      [OF sample_env_fields(1) sample_select_ok refl,
        where key = sample_key and iv = sample_iv and rest = "[]"
          and ciphertext = "[0x00, 0x11, 0x22, 0x33, 0x44, 0x55, 0x66, 0x77, 0x88, 0x99, 0xAA,
             0xBB, 0xCC, 0xDD, 0xEE, 0xFF]"]
  by (simp add: sample_key_parsed sample_iv_parsed sample_action sample_ct_good sample_ct_bad
      py_list_def)

text \<open>The events 11 and 13 of a decrypt run with a ciphertext of 16 bytes.\<close>

theorem iv_reset_before_decrypt_witness:
  "snd (script (sample_env (0x90, 0x00))
         [sample_key_line, sample_iv_line, '' Decrypt '', ''00112233445566778899aabbccddeeff''])
     ! 11 = Transmit (spec_frame CLA INS_SET_IV 0x00 0x00 (py_list sample_iv)) \<and>
   snd (script (sample_env (0x90, 0x00))
         [sample_key_line, sample_iv_line, '' Decrypt '', ''00112233445566778899aabbccddeeff''])
     ! 13 = Transmit (spec_frame CLA INS_DECRYPT 0x00 0x00
          [0x00, 0x11, 0x22, 0x33, 0x44, 0x55, 0x66, 0x77, 0x88, 0x99, 0xAA, 0xBB, 0xCC, 0xDD,
           0xEE, 0xFF])"
  using
    iv_reset_before_decrypt
      [OF sample_env_fields(1) sample_select_ok refl,
        where key = sample_key and iv = sample_iv and rest = "[]"
          and ciphertext = "[0x00, 0x11, 0x22, 0x33, 0x44, 0x55, 0x66, 0x77, 0x88, 0x99, 0xAA,
             0xBB, 0xCC, 0xDD, 0xEE, 0xFF]"]
  by (simp add: sample_key_parsed sample_iv_parsed sample_action sample_ct_good py_list_def)

text \<open>The SET_KEY APDU for the sample key of 32 bytes.\<close>

theorem apdus_framed_witness:
  "snd (script (sample_env (0x90, 0x00)) [sample_key_line, sample_iv_line]) ! 5 =
     Transmit [0x80, 0x10, 0x00, 0x00, 0x20,
       0x00, 0x01, 0x02, 0x03, 0x04, 0x05, 0x06, 0x07, 0x08, 0x09, 0x0A, 0x0B, 0x0C,
       0x0D, 0x0E, 0x0F, 0x10, 0x11, 0x12, 0x13, 0x14, 0x15, 0x16, 0x17, 0x18, 0x19, 0x1A, 0x1B,
       0x1C, 0x1D, 0x1E, 0x1F]"
  using apdus_framed
    [where env = "sample_env (0x90, 0x00)" and lines = "[sample_key_line, sample_iv_line]"
      and key = sample_key and iv = sample_iv and key_line = sample_key_line
      and iv_line = sample_iv_line and rest = "[]" and resp = "[]" and ?c1.0 = 1
      and ?r0.0 = "\<lparr>reader_name = ''contact reader'', createConnection = 100\<rparr>"
      and ?r1.0 = "\<lparr>reader_name = ''contactless reader'', createConnection = 0\<rparr>"
      and rs = "[]"]
  by (simp add: sample_key_parsed sample_iv_parsed sample_card_select)
    (simp add: sample_key_def py_list_def)

text \<open>The class bytes in a decrypt run, and the first APDU of a run whose SELECT fails.\<close>

theorem select_apdu_bytes_witness:
  "list_all (\<lambda>a. hd a = 0x80)
     (tl (transmitted (snd (script (sample_env (0x90, 0x00))
       [sample_key_line, sample_iv_line, '' Decrypt '', ''00112233445566778899aabbccddeeff''])))) \<and>
   take 1 (transmitted (snd (script (sample_env (0x6A, 0x82)) []))) \<in> {[], [select_apdu]}"
  using
    select_apdu_bytes [of "sample_env (0x90, 0x00)"
      "[sample_key_line, sample_iv_line, '' Decrypt '', ''00112233445566778899aabbccddeeff'']"]
    select_apdu_bytes [of "sample_env (0x6A, 0x82)" "[]"]
  by simp

text \<open>One reader, no reader, two readers, and another first reader.\<close>

theorem second_reader_required_witness:
  "script ((sample_env (0x90, 0x00))
      \<lparr>readers := [\<lparr>reader_name = ''contact reader'', createConnection = 100\<rparr>]\<rparr>) [] =
     (Inl IndexError, []) \<and>
   script ((sample_env (0x90, 0x00))\<lparr>readers := []\<rparr>) [] = (Inl NoReadersFound, []) \<and>
   take 1 (snd (script (sample_env (0x90, 0x00)) [])) =
     [Print_Using_Reader ''contactless reader''] \<and>
   script ((sample_env (0x90, 0x00))
      \<lparr>readers := [\<lparr>reader_name = ''another reader'', createConnection = 7\<rparr>,
                   \<lparr>reader_name = ''contactless reader'', createConnection = 0\<rparr>]\<rparr>) [] =
     script (sample_env (0x90, 0x00)) []"
  using
    second_reader_required
      [where env = "(sample_env (0x90, 0x00))
          \<lparr>readers := [\<lparr>reader_name = ''contact reader'', createConnection = 100\<rparr>]\<rparr>"
        and lines = "[]" and r = "\<lparr>reader_name = ''contact reader'', createConnection = 100\<rparr>"]
    second_reader_required
      [where env = "(sample_env (0x90, 0x00))\<lparr>readers := []\<rparr>" and lines = "[]"]
    second_reader_required
      [where env = "sample_env (0x90, 0x00)" and lines = "[]"
        and ?r0.0 = "\<lparr>reader_name = ''contact reader'', createConnection = 100\<rparr>"
        and ?r1.0 = "\<lparr>reader_name = ''contactless reader'', createConnection = 0\<rparr>"
        and rs = "[]"
        and ?r0'.0 = "\<lparr>reader_name = ''another reader'', createConnection = 7\<rparr>"]
  by simp

end
